theory Spec2Isabelle
  imports Complex_Main "HOL-Library.Log_Nat"
begin

section \<open>Conventions\<close>

text \<open>
  The benchmark suite is Python. Its \<^verbatim>\<open>float\<close> values are modelled as real numbers
  (exact arithmetic, no rounding, no NaN), its \<^verbatim>\<open>int\<close> values as \<^typ>\<open>int\<close> or
  \<^typ>\<open>nat\<close>, \<^verbatim>\<open>None\<close> as \<^const>\<open>None\<close>, and a raised exception as the left
  injection of a sum.
\<close>

datatype py_error =
  ZeroDivisionError | IndexError | StatisticsError | ValueError | KeyError | TypeError
| OverflowError

section \<open>advanced\_benchmark.py: one timed request\<close>

text \<open>The dataclass \<^verbatim>\<open>RequestResult\<close>.\<close>

record RequestResult =
  request_id :: int
  start_time :: real
  end_time :: real
  response_time :: real
  status_code :: int
  success :: bool
  result_value :: bool
  error :: "string option"
  queue_time :: real
  processing_time :: real

text \<open>
  The transport is an external collaborator. The parsed JSON body of a reply carries the
  keys \<^verbatim>\<open>success\<close>, \<^verbatim>\<open>result\<close> and \<^verbatim>\<open>error\<close>, each of which may be absent
  (\<^const>\<open>None\<close>; for \<^verbatim>\<open>error\<close> also a JSON null).
\<close>

record payload =
  p_success :: "bool option"
  p_result :: "bool option"
  p_error :: "string option"

text \<open>
  What \<^verbatim>\<open>session.post\<close> does with one request: it raises before a response arrives
  (timeout, connection error; the string is \<^verbatim>\<open>str(e)\<close>), or a response arrives and
  reading its body raises (\<^verbatim>\<open>response.json()\<close> on an unparsable body, or \<^verbatim>\<open>.get\<close> on
  a body that is not an object), or a response with a status and a parsed body arrives.
\<close>

datatype transport =
  PostRaised string
| BodyRaised string
| Replied int payload

text \<open>\<^verbatim>\<open>d.get(key, default)\<close> on an optional entry.\<close>

definition get_default :: "'a option \<Rightarrow> 'a \<Rightarrow> 'a" where
  "get_default v d = (case v of None \<Rightarrow> d | Some x \<Rightarrow> x)"

text \<open>
  \<^verbatim>\<open>send_request\<close>. The argument \<open>now\<close> gives the readings of \<^verbatim>\<open>time.time()\<close>
  made by this call, in order: \<open>now 0\<close> is \<^verbatim>\<open>start_time\<close>; \<open>now 1\<close> is the reading
  taken when the response arrives, or in the handler when the post itself raised;
  \<open>now 2\<close> is the handler's reading when the body raised after the first \<^verbatim>\<open>end_time\<close>
  had been taken. \<open>session\<close> is the transport's answer to the posted \<^verbatim>\<open>idval\<close>.
\<close>

definition failure_result :: "int \<Rightarrow> real \<Rightarrow> real \<Rightarrow> string \<Rightarrow> RequestResult" where
  "failure_result rid t0 t1 msg =
     \<lparr>request_id = rid, start_time = t0, end_time = t1,
      response_time = (t1 - t0) * 1000, status_code = 0, success = False,
      result_value = False, error = Some msg, queue_time = 0, processing_time = 0\<rparr>"

definition send_request ::
  "(string \<Rightarrow> transport) \<Rightarrow> (nat \<Rightarrow> real) \<Rightarrow> int \<Rightarrow> string \<Rightarrow> RequestResult" where
  "send_request session now rid idval =
     (let t0 = now 0 in
      case session idval of
        PostRaised msg \<Rightarrow> failure_result rid t0 (now 1) msg
      | BodyRaised msg \<Rightarrow> failure_result rid t0 (now 2) msg
      | Replied status body \<Rightarrow>
          (let t1 = now 1 in
           \<lparr>request_id = rid, start_time = t0, end_time = t1,
            response_time = (t1 - t0) * 1000, status_code = status,
            success = get_default (p_success body) False,
            result_value = get_default (p_result body) False,
            error = p_error body, queue_time = 0, processing_time = 0\<rparr>))"

text \<open>The number of clock readings one call makes.\<close>

definition clock_reads :: "transport \<Rightarrow> nat" where
  "clock_reads r = (case r of BodyRaised _ \<Rightarrow> 3 | _ \<Rightarrow> 2)"

text \<open>A transport failure is any outcome in which the \<^verbatim>\<open>try\<close> block raised.\<close>

definition transport_failed :: "transport \<Rightarrow> bool" where
  "transport_failed r = (case r of Replied _ _ \<Rightarrow> False | _ \<Rightarrow> True)"

definition failure_text :: "transport \<Rightarrow> string" where
  "failure_text r = (case r of PostRaised m \<Rightarrow> m | BodyRaised m \<Rightarrow> m | Replied _ _ \<Rightarrow> [])"

section \<open>advanced\_benchmark.py: the load scheduler\<close>

text \<open>\<^verbatim>\<open>str(n)\<close> for a non-negative integer, as the f-strings of the schedulers use it.\<close>

fun str_nat :: "nat \<Rightarrow> string" where
  "str_nat n =
     (if n < 10 then [char_of (48 + n)]
      else str_nat (n div 10) @ [char_of (48 + n mod 10)])"

declare str_nat.simps [simp del]

text \<open>
  The environment of a run: the transport, the wall clock and the random generator.
  \<open>clock\<close> is the sequence of readings of \<^verbatim>\<open>time.time()\<close> of a sequential strategy
  (the effect of \<^verbatim>\<open>asyncio.sleep\<close> and of the network on time is in this sequence);
  \<open>times k\<close> is the sequence of readings made inside the \<open>k\<close>-th request of a
  concurrent strategy, whose interleaving the event loop decides; \<open>rand k\<close> is the
  \<open>k\<close>-th value of \<^verbatim>\<open>random.randint(1000, 9999)\<close>.
\<close>

record env =
  session :: "string \<Rightarrow> transport"
  clock :: "nat \<Rightarrow> real"
  times :: "nat \<Rightarrow> nat \<Rightarrow> real"
  rand :: "nat \<Rightarrow> nat"

definition burst_idval :: "nat \<Rightarrow> nat \<Rightarrow> nat \<Rightarrow> string" where
  "burst_idval burst i r =
     ''burst_'' @ str_nat burst @ ''_req_'' @ str_nat i @ ''_'' @ str_nat r"

text \<open>
  One burst of \<^verbatim>\<open>run_burst_test\<close>: the tasks are created for \<open>i\<close> in
  \<^verbatim>\<open>range(burst_size)\<close> and \<^verbatim>\<open>asyncio.gather\<close> returns their results in the order
  of the tasks, whatever the order of completion.
\<close>

definition burst_results :: "env \<Rightarrow> int \<Rightarrow> nat \<Rightarrow> RequestResult list" where
  "burst_results e burst_size burst =
     map (\<lambda>i. let k = burst * nat burst_size + i in
            send_request (session e) (times e k) (int burst * burst_size + int i)
              (burst_idval burst i (rand e k)))
       [0..<nat burst_size]"

text \<open>
  \<^verbatim>\<open>run_burst_test\<close>: the loop over \<^verbatim>\<open>range(5)\<close> extends \<^verbatim>\<open>results\<close> by each burst;
  the second component records the arguments of \<^verbatim>\<open>asyncio.sleep\<close>, in order.
\<close>

definition burst_step ::
  "env \<Rightarrow> int \<Rightarrow> real \<Rightarrow> RequestResult list \<times> real list \<Rightarrow> nat \<Rightarrow> RequestResult list \<times> real list" where
  "burst_step e burst_size burst_interval acc burst =
     (fst acc @ burst_results e burst_size burst,
      if burst < 4 then snd acc @ [burst_interval] else snd acc)"

definition run_burst_test :: "env \<Rightarrow> int \<Rightarrow> real \<Rightarrow> RequestResult list \<times> real list" where
  "run_burst_test e burst_size burst_interval =
     foldl (burst_step e burst_size burst_interval) ([], []) [0..<5]"

text \<open>
  \<^verbatim>\<open>run_sustained_test\<close>. \<open>tick\<close> counts the clock readings made so far. The loop
  runs as long as the clock says so, hence the \<open>option\<close>: \<^const>\<open>None\<close> is a loop
  that never ends. The result pairs the collected results with the arguments of
  \<^verbatim>\<open>asyncio.sleep\<close>.
\<close>

definition sustained_idval :: "nat \<Rightarrow> nat \<Rightarrow> string" where
  "sustained_idval rid r = ''sustained_req_'' @ str_nat rid @ ''_'' @ str_nat r"

partial_function (option) sustained_loop ::
  "env \<Rightarrow> real \<Rightarrow> real \<Rightarrow> real \<Rightarrow> nat \<Rightarrow> nat \<Rightarrow> RequestResult list \<Rightarrow> real list
     \<Rightarrow> (RequestResult list \<times> real list) option" where
  "sustained_loop e start duration delay tick rid results sleeps =
     (if clock e tick - start < duration then
        let idval = sustained_idval rid (rand e rid);
            result = send_request (session e) (\<lambda>k. clock e (tick + 1 + k)) (int rid) idval;
            tick1 = tick + 1 + clock_reads (session e idval);
            rid1 = rid + 1;
            tick2 = (if rid1 mod 20 = 0 then tick1 + 1 else tick1)
        in sustained_loop e start duration delay tick2 rid1 (results @ [result]) (sleeps @ [delay])
      else Some (results, sleeps))"

text \<open>The delay of the sustained strategy, \<^verbatim>\<open>1.0 / rps\<close>, computed before the loop.\<close>

definition sustained_delay :: "real \<Rightarrow> py_error + real" where
  "sustained_delay rps = (if rps = 0 then Inl ZeroDivisionError else Inr (1 / rps))"

definition run_sustained_test ::
  "env \<Rightarrow> real \<Rightarrow> real \<Rightarrow> (py_error + RequestResult list \<times> real list) option" where
  "run_sustained_test e rps duration =
     (let start = clock e 0 in
      case sustained_delay rps of
        Inl err \<Rightarrow> Some (Inl err)
      | Inr delay \<Rightarrow> map_option Inr (sustained_loop e start duration delay 1 0 [] []))"

text \<open>
  \<^verbatim>\<open>run_ramp_test\<close>. The delay of one iteration is
  \<^verbatim>\<open>1.0 / current_rps if current_rps > 0 else 1.0\<close>; \<^verbatim>\<open>elapsed / duration\<close> raises
  when \<^verbatim>\<open>duration\<close> is zero.
\<close>

definition ramp_idval :: "nat \<Rightarrow> nat \<Rightarrow> string" where
  "ramp_idval rid r = ''ramp_req_'' @ str_nat rid @ ''_'' @ str_nat r"

definition ramp_delay :: "real \<Rightarrow> real" where
  "ramp_delay current_rps = (if current_rps > 0 then 1 / current_rps else 1)"

partial_function (option) ramp_loop ::
  "env \<Rightarrow> real \<Rightarrow> real \<Rightarrow> real \<Rightarrow> real \<Rightarrow> nat \<Rightarrow> nat \<Rightarrow> RequestResult list \<Rightarrow> real list
     \<Rightarrow> (py_error + RequestResult list \<times> real list) option" where
  "ramp_loop e start_rps end_rps duration start tick rid results sleeps =
     (if clock e tick - start < duration then
        let elapsed = clock e (tick + 1) - start in
        if duration = 0 then Some (Inl ZeroDivisionError)
        else
          let progress = elapsed / duration;
              current_rps = start_rps + (end_rps - start_rps) * progress;
              delay = ramp_delay current_rps;
              idval = ramp_idval rid (rand e rid);
              result = send_request (session e) (\<lambda>k. clock e (tick + 2 + k)) (int rid) idval;
              tick1 = tick + 2 + clock_reads (session e idval)
          in ramp_loop e start_rps end_rps duration start tick1 (rid + 1)
               (results @ [result]) (sleeps @ [delay])
      else Some (Inr (results, sleeps)))"

definition run_ramp_test ::
  "env \<Rightarrow> real \<Rightarrow> real \<Rightarrow> real \<Rightarrow> (py_error + RequestResult list \<times> real list) option" where
  "run_ramp_test e start_rps end_rps duration =
     ramp_loop e start_rps end_rps duration (clock e 0) 1 0 [] []"

section \<open>The library functions the analysis calls\<close>

text \<open>Sequencing of computations that may raise.\<close>

definition bind_result :: "py_error + 'a \<Rightarrow> ('a \<Rightarrow> py_error + 'b) \<Rightarrow> py_error + 'b" where
  "bind_result m f = (case m of Inl err \<Rightarrow> Inl err | Inr x \<Rightarrow> f x)"

text \<open>The builtins \<^verbatim>\<open>min\<close> and \<^verbatim>\<open>max\<close>, which raise on an empty sequence.\<close>

definition py_min :: "real list \<Rightarrow> py_error + real" where
  "py_min xs = (case xs of [] \<Rightarrow> Inl ValueError | y # ys \<Rightarrow> Inr (fold min ys y))"

definition py_max :: "real list \<Rightarrow> py_error + real" where
  "py_max xs = (case xs of [] \<Rightarrow> Inl ValueError | y # ys \<Rightarrow> Inr (fold max ys y))"

text \<open>
  \<^verbatim>\<open>statistics.mean\<close>, \<^verbatim>\<open>statistics.median\<close> and \<^verbatim>\<open>statistics.stdev\<close> of the
  standard library: the arithmetic mean, the middle of the sorted data (the mean of the
  two middle values for an even count) and the square root of the sample variance
  (the squared deviations from the mean, divided by \<open>n - 1\<close>). The first two raise
  \<^verbatim>\<open>StatisticsError\<close> on empty data, the last on fewer than two values.
\<close>

definition statistics_mean :: "real list \<Rightarrow> py_error + real" where
  "statistics_mean xs =
     (if xs = [] then Inl StatisticsError else Inr (sum_list xs / real (length xs)))"

definition statistics_median :: "real list \<Rightarrow> py_error + real" where
  "statistics_median xs =
     (let data = sort xs; n = length data in
      if n = 0 then Inl StatisticsError
      else if n mod 2 = 1 then Inr (data ! (n div 2))
      else Inr ((data ! (n div 2 - 1) + data ! (n div 2)) / 2))"

definition squared_deviations :: "real list \<Rightarrow> real \<Rightarrow> real" where
  "squared_deviations xs m = sum_list (map (\<lambda>x. (x - m)\<^sup>2) xs)"

definition statistics_stdev :: "real list \<Rightarrow> py_error + real" where
  "statistics_stdev xs =
     (if length xs < 2 then Inl StatisticsError
      else Inr (sqrt (squared_deviations xs (sum_list xs / real (length xs))
                        / real (length xs - 1))))"

section \<open>advanced\_benchmark.py: the analysis\<close>

text \<open>
  \<^verbatim>\<open>analyze_trend\<close>: the slope of the data against the positions \<open>0, ..., n - 1\<close>.
\<close>

definition analyze_trend :: "real list \<Rightarrow> py_error + string" where
  "analyze_trend data =
     (if length data < 10 then Inr ''insufficient_data''
      else
        let x = map real [0..<length data];
            y = data;
            n = real (length data);
            sum_x = sum_list x;
            sum_y = sum_list y;
            sum_xy = sum_list (map (\<lambda>(xi, yi). xi * yi) (zip x y));
            sum_x2 = sum_list (map (\<lambda>xi. xi * xi) x)
        in if n * sum_x2 - sum_x * sum_x = 0 then Inl ZeroDivisionError
           else
             let slope = (n * sum_xy - sum_x * sum_y) / (n * sum_x2 - sum_x * sum_x) in
             if slope > 0.1 then Inr ''increasing''
             else if slope < - 0.1 then Inr ''decreasing''
             else Inr ''stable'')"

text \<open>
  \<^verbatim>\<open>detect_outliers\<close> of advanced\_benchmark.py (z-score, on the sample standard
  deviation). The entry \<^verbatim>\<open>outliers\<close> is absent from the dictionary of a short input.
\<close>

record outlier =
  o_index :: nat
  o_value :: real
  o_z_score :: real

record outlier_report =
  or_count :: nat
  or_percentage :: real
  or_outliers :: "outlier list option"

definition detect_outliers_benchmark :: "real list \<Rightarrow> real \<Rightarrow> py_error + outlier_report" where
  "detect_outliers_benchmark data threshold =
     (if length data < 3 then Inr \<lparr>or_count = 0, or_percentage = 0, or_outliers = None\<rparr>
      else
        bind_result (statistics_mean data) (\<lambda>mean.
        bind_result (statistics_stdev data) (\<lambda>std_dev.
          let scored = map (\<lambda>(i, v). \<lparr>o_index = i, o_value = v,
                              o_z_score = (if std_dev > 0 then \<bar>v - mean\<bar> / std_dev else 0)\<rparr>)
                         (zip [0..<length data] data);
              found = filter (\<lambda>entry. o_z_score entry > threshold) scored
          in Inr \<lparr>or_count = length found,
                  or_percentage = real (length found) / real (length data) * 100,
                  or_outliers = Some (take 10 found)\<rparr>)))"

text \<open>\<^verbatim>\<open>analyze_timing_patterns\<close>; \<^const>\<open>None\<close> is the empty dictionary.\<close>

record timing_patterns =
  tp_max_variation :: real
  tp_avg_variation :: real
  tp_timing_consistency :: real
  tp_outliers :: outlier_report
  tp_trending :: string

definition analyze_timing_patterns :: "RequestResult list \<Rightarrow> py_error + timing_patterns option" where
  "analyze_timing_patterns results =
     (if length results < 2 then Inr None
      else
        let times = map response_time results;
            timestamps = map start_time results;
            time_series = sort_key fst (zip timestamps times);
            variations = map (\<lambda>i. \<bar>snd (time_series ! i) - snd (time_series ! (i - 1))\<bar>)
                           [1..<length time_series]
        in
        bind_result (if variations \<noteq> [] then py_max variations else Inr 0) (\<lambda>max_variation.
        bind_result (if variations \<noteq> [] then statistics_mean variations else Inr 0) (\<lambda>avg_variation.
        bind_result (statistics_mean times) (\<lambda>mean_times.
        bind_result (if mean_times > 0
                     then bind_result (statistics_stdev times) (\<lambda>sd. Inr (1 - sd / mean_times))
                     else Inr 0) (\<lambda>consistency.
        bind_result (detect_outliers_benchmark times 2) (\<lambda>outl.
        bind_result (analyze_trend times) (\<lambda>trend.
          Inr (Some \<lparr>tp_max_variation = max_variation, tp_avg_variation = avg_variation,
                     tp_timing_consistency = consistency, tp_outliers = outl,
                     tp_trending = trend\<rparr>))))))))"

text \<open>
  \<^verbatim>\<open>analyze_errors\<close>. The dictionary \<^verbatim>\<open>error_types\<close> keeps its keys in insertion
  order; \<^verbatim>\<open>most_common\<close> is the first entry with the greatest count and is absent when
  nothing failed.
\<close>

fun dict_get :: "(string \<times> nat) list \<Rightarrow> string \<Rightarrow> nat \<Rightarrow> nat" where
  "dict_get [] k d = d"
| "dict_get ((k', v) # kvs) k d = (if k' = k then v else dict_get kvs k d)"

fun dict_set :: "(string \<times> nat) list \<Rightarrow> string \<Rightarrow> nat \<Rightarrow> (string \<times> nat) list" where
  "dict_set [] k v = [(k, v)]"
| "dict_set ((k', v') # kvs) k v = (if k' = k then (k, v) # kvs else (k', v') # dict_set kvs k v)"

definition error_key :: "string option \<Rightarrow> string" where
  "error_key err = (case err of None \<Rightarrow> ''unknown'' | Some m \<Rightarrow> if m = [] then ''unknown'' else m)"

fun count_errors :: "(string \<times> nat) list \<Rightarrow> RequestResult list \<Rightarrow> (string \<times> nat) list" where
  "count_errors error_types [] = error_types"
| "count_errors error_types (r # rs) =
     count_errors (dict_set error_types (error_key (error r))
                     (dict_get error_types (error_key (error r)) 0 + 1)) rs"

fun max_by_count :: "string \<times> nat \<Rightarrow> (string \<times> nat) list \<Rightarrow> string \<times> nat" where
  "max_by_count best [] = best"
| "max_by_count best (kv # kvs) = max_by_count (if snd kv > snd best then kv else best) kvs"

record error_analysis =
  ea_total :: nat
  ea_types :: "(string \<times> nat) list"
  ea_most_common :: "(string \<times> nat) option"

definition analyze_errors :: "RequestResult list \<Rightarrow> error_analysis" where
  "analyze_errors failed_results =
     (if failed_results = [] then \<lparr>ea_total = 0, ea_types = [], ea_most_common = None\<rparr>
      else
        let error_types = count_errors [] failed_results in
        \<lparr>ea_total = length failed_results, ea_types = error_types,
         ea_most_common = (case error_types of [] \<Rightarrow> None
                           | kv # kvs \<Rightarrow> Some (max_by_count kv kvs))\<rparr>)"

text \<open>
  \<^verbatim>\<open>analyze_results\<close>. The three shapes of the returned dictionary: empty, the single
  entry \<^verbatim>\<open>error\<close>, or the statistics. \<^verbatim>\<open>np.percentile\<close> belongs to numpy and is a
  parameter.
\<close>

record response_time_stats =
  rt_min :: real
  rt_max :: real
  rt_mean :: real
  rt_median :: real
  rt_p95 :: real
  rt_p99 :: real
  rt_std_dev :: real

record benchmark_stats =
  bs_total_requests :: nat
  bs_successful_requests :: nat
  bs_failed_requests :: nat
  bs_success_rate :: real
  bs_response_times :: response_time_stats
  bs_timing_analysis :: "timing_patterns option"
  bs_error_analysis :: error_analysis

datatype summary =
  EmptyDict
| ErrorEntry string
| Statistics benchmark_stats

definition analyze_results ::
  "(real list \<Rightarrow> real \<Rightarrow> real) \<Rightarrow> RequestResult list \<Rightarrow> py_error + summary" where
  "analyze_results np_percentile results =
     (if results = [] then Inr EmptyDict
      else
        let successful = filter success results;
            failed = filter (\<lambda>r. \<not> success r) results;
            response_times = map response_time successful
        in
        if response_times = [] then Inr (ErrorEntry ''No successful requests'')
        else
          bind_result (py_min response_times) (\<lambda>mn.
          bind_result (py_max response_times) (\<lambda>mx.
          bind_result (statistics_mean response_times) (\<lambda>mean.
          bind_result (statistics_median response_times) (\<lambda>median.
          bind_result (if length response_times > 1 then statistics_stdev response_times
                       else Inr 0) (\<lambda>std_dev.
          bind_result (analyze_timing_patterns successful) (\<lambda>timing.
            Inr (Statistics
              \<lparr>bs_total_requests = length results,
               bs_successful_requests = length successful,
               bs_failed_requests = length failed,
               bs_success_rate = real (length successful) / real (length results) * 100,
               bs_response_times =
                 \<lparr>rt_min = mn, rt_max = mx, rt_mean = mean, rt_median = median,
                  rt_p95 = np_percentile response_times 95,
                  rt_p99 = np_percentile response_times 99,
                  rt_std_dev = std_dev\<rparr>,
               bs_timing_analysis = timing,
               bs_error_analysis = analyze_errors failed\<rparr>))))))))"

section \<open>analyze\_timing.py\<close>

text \<open>One row of the timing data, as \<^verbatim>\<open>load_timing_data\<close> builds it.\<close>

record timing_row =
  tr_request_id :: int
  tr_response_time_ms :: real
  tr_success :: bool
  tr_error :: string

text \<open>\<^verbatim>\<open>int(x)\<close> on a float truncates towards zero.\<close>

definition py_int :: "real \<Rightarrow> int" where
  "py_int x = (if 0 \<le> x then \<lfloor>x\<rfloor> else \<lceil>x\<rceil>)"

text \<open>\<^verbatim>\<open>data[i]\<close>: a negative index counts from the end, an index out of range raises.\<close>

definition py_index :: "'a list \<Rightarrow> int \<Rightarrow> py_error + 'a" where
  "py_index xs i =
     (if 0 \<le> i \<and> i < int (length xs) then Inr (xs ! nat i)
      else if i < 0 \<and> - int (length xs) \<le> i then Inr (xs ! nat (int (length xs) + i))
      else Inl IndexError)"

text \<open>The local function \<^verbatim>\<open>percentile\<close> of \<^verbatim>\<open>calculate_statistics\<close>.\<close>

definition percentile :: "real list \<Rightarrow> real \<Rightarrow> py_error + real" where
  "percentile data p =
     (let index = real_of_int (int (length data) - 1) * p / 100;
          lower = py_int index;
          upper = lower + 1;
          weight = index - real_of_int lower
      in if upper \<ge> int (length data) then py_index data (- 1)
         else bind_result (py_index data lower) (\<lambda>lo.
              bind_result (py_index data upper) (\<lambda>hi.
                Inr (lo * (1 - weight) + hi * weight))))"

text \<open>\<^verbatim>\<open>calculate_statistics\<close>; \<^const>\<open>None\<close> is the empty dictionary.\<close>

record timing_statistics =
  cs_n :: nat
  cs_mean :: real
  cs_median :: real
  cs_std_dev :: real
  cs_min :: real
  cs_max :: real
  cs_range :: real
  cs_p25 :: real
  cs_p75 :: real
  cs_p95 :: real
  cs_p99 :: real
  cs_cv :: real
  cs_avg_variation :: real
  cs_max_variation :: real
  cs_iqr :: real

definition calculate_statistics :: "real list \<Rightarrow> py_error + timing_statistics option" where
  "calculate_statistics response_times =
     (if response_times = [] then Inr None
      else
        let n = length response_times;
            sorted_times = sort response_times;
            mean = sum_list response_times / real n;
            median = (if n mod 2 = 1 then sorted_times ! (n div 2)
                      else (sorted_times ! (n div 2 - 1) + sorted_times ! (n div 2)) / 2)
        in
        bind_result (py_min response_times) (\<lambda>minimum.
        bind_result (py_max response_times) (\<lambda>maximum.
        bind_result (percentile sorted_times 25) (\<lambda>p25.
        bind_result (percentile sorted_times 75) (\<lambda>p75.
        bind_result (percentile sorted_times 95) (\<lambda>p95.
        bind_result (percentile sorted_times 99) (\<lambda>p99.
          let variance = squared_deviations response_times mean / real n;
              std_dev = sqrt variance;
              cv = (if mean \<noteq> 0 then std_dev / mean else 0);
              variations = map (\<lambda>i. \<bar>response_times ! i - response_times ! (i - 1)\<bar>)
                             [1..<length response_times]
          in
          bind_result (if variations \<noteq> [] then py_max variations else Inr 0) (\<lambda>max_variation.
            Inr (Some
              \<lparr>cs_n = n, cs_mean = mean, cs_median = median, cs_std_dev = std_dev,
               cs_min = minimum, cs_max = maximum, cs_range = maximum - minimum,
               cs_p25 = p25, cs_p75 = p75, cs_p95 = p95, cs_p99 = p99, cs_cv = cv,
               cs_avg_variation =
                 (if variations \<noteq> [] then sum_list variations / real (length variations)
                  else 0),
               cs_max_variation = max_variation,
               cs_iqr = p75 - p25\<rparr>)))))))))"

text \<open>
  \<^verbatim>\<open>detect_outliers\<close> of analyze\_timing.py. The function has a branch for the
  methods \<^verbatim>\<open>zscore\<close> and \<^verbatim>\<open>iqr\<close> and falls off its end for any other method, which
  in Python returns \<^verbatim>\<open>None\<close>.
\<close>

definition detect_outliers ::
  "real list \<Rightarrow> string \<Rightarrow> real \<Rightarrow> (nat \<times> real \<times> real) list option" where
  "detect_outliers response_times method threshold =
     (if response_times = [] then Some []
      else if method = ''zscore'' then
        let mean = sum_list response_times / real (length response_times);
            std_dev = sqrt (squared_deviations response_times mean
                              / real (length response_times));
            scored = map (\<lambda>(i, t). (i, t, if std_dev \<noteq> 0 then \<bar>t - mean\<bar> / std_dev else 0))
                       (zip [0..<length response_times] response_times)
        in Some (filter (\<lambda>(i, t, z_score). z_score > threshold) scored)
      else if method = ''iqr'' then
        let sorted_times = sort response_times;
            n = length sorted_times;
            q1 = sorted_times ! (n div 4);
            q3 = sorted_times ! (3 * n div 4);
            iqr = q3 - q1;
            lower_bound = q1 - 1.5 * iqr;
            upper_bound = q3 + 1.5 * iqr
        in Some (map (\<lambda>(i, t). (i, t, 0))
                   (filter (\<lambda>(i, t). t < lower_bound \<or> t > upper_bound)
                      (zip [0..<length response_times] response_times)))
      else None)"

text \<open>
  \<^verbatim>\<open>analyze_patterns\<close>; \<^const>\<open>None\<close> is the empty dictionary. The entry
  \<^verbatim>\<open>trend_description\<close> is a formatting of \<^verbatim>\<open>slope\<close> and is left to the rendering.
\<close>

record patterns =
  pt_slope :: real
  pt_intercept :: real
  pt_patterns :: "string list"
  pt_within_1std_pct :: real
  pt_within_2std_pct :: real

definition analyze_patterns :: "timing_row list \<Rightarrow> py_error + patterns option" where
  "analyze_patterns data =
     (if length data < 3 then Inr None
      else
        let response_times = map tr_response_time_ms (filter tr_success data);
            request_ids = map (\<lambda>d. real_of_int (tr_request_id d)) (filter tr_success data)
        in
        if length response_times < 3 then Inr None
        else
          let n = real (length response_times);
              sum_x = sum_list request_ids;
              sum_y = sum_list response_times;
              sum_xy = sum_list (map (\<lambda>(x, y). x * y) (zip request_ids response_times));
              sum_x2 = sum_list (map (\<lambda>x. x * x) request_ids);
              denominator = n * sum_x2 - sum_x * sum_x;
              slope = (if denominator \<noteq> 0 then (n * sum_xy - sum_x * sum_y) / denominator
                       else 0);
              intercept = (if denominator \<noteq> 0 then (sum_y - slope * sum_x) / n
                           else sum_y / n);
              avg_time = sum_list response_times / real (length response_times);
              std_dev = sqrt (squared_deviations response_times avg_time
                                / real (length response_times));
              trend = (if \<bar>slope\<bar> > 5
                       then (if slope > 0
                             then [''Increasing trend detected (performance degrading)'']
                             else [''Decreasing trend detected (performance improving)''])
                       else [])
          in
          if avg_time = 0 then Inl ZeroDivisionError
          else
            let variability =
                  (if std_dev / avg_time > 0.5 then [''High variability in response times'']
                   else if std_dev / avg_time < 0.1 then [''Very consistent response times'']
                   else []);
                within_1std = length (filter (\<lambda>t. \<bar>t - avg_time\<bar> \<le> std_dev) response_times);
                within_2std = length (filter (\<lambda>t. \<bar>t - avg_time\<bar> \<le> 2 * std_dev) response_times)
            in Inr (Some
                 \<lparr>pt_slope = slope, pt_intercept = intercept,
                  pt_patterns = trend @ variability,
                  pt_within_1std_pct = real within_1std / real (length response_times) * 100,
                  pt_within_2std_pct = real within_2std / real (length response_times) * 100\<rparr>))"

text \<open>\<^verbatim>\<open>categorize_performance\<close> returns the triple (consistency, description, speed).\<close>

definition categorize_performance :: "real \<Rightarrow> real \<Rightarrow> string \<times> string \<times> string" where
  "categorize_performance cv avg_time =
     (let consistency =
            (if cv < 0.1 then (''Excellent'', ''Very low variation, highly predictable'')
             else if cv < 0.25 then (''Good'', ''Low variation, reasonably predictable'')
             else if cv < 0.5 then (''Fair'', ''Moderate variation, somewhat unpredictable'')
             else (''Poor'', ''High variation, unpredictable performance''));
          speed =
            (if avg_time < 500 then ''Fast''
             else if avg_time < 1000 then ''Moderate''
             else if avg_time < 2000 then ''Slow''
             else ''Very Slow'')
      in (fst consistency, snd consistency, speed))"

text \<open>
  \<^verbatim>\<open>generate_comprehensive_report\<close> returns nothing on every path; what it produces is
  printed and written. With no successful row it prints one line (after a symbol,
  the text of \<open>NoticeOnly\<close>) and returns; otherwise it renders the report and the
  summary from the values gathered in \<open>report_summary\<close>.
\<close>

record report_summary =
  rs_total_requests :: nat
  rs_successful_requests :: nat
  rs_failed_requests :: nat
  rs_success_rate :: real
  rs_statistics :: timing_statistics
  rs_performance_rating :: "string \<times> string \<times> string"
  rs_zscore_count :: nat
  rs_iqr_count :: nat
  rs_errors :: "(string \<times> nat) list"
  rs_patterns :: "patterns option"

datatype report_output =
  NoticeOnly string
| Report report_summary

fun count_row_errors :: "(string \<times> nat) list \<Rightarrow> timing_row list \<Rightarrow> (string \<times> nat) list" where
  "count_row_errors error_counts [] = error_counts"
| "count_row_errors error_counts (req # reqs) =
     count_row_errors (dict_set error_counts (tr_error req)
                         (dict_get error_counts (tr_error req) 0 + 1)) reqs"

definition generate_comprehensive_report :: "timing_row list \<Rightarrow> py_error + report_output" where
  "generate_comprehensive_report data =
     (let total_requests = length data;
          successful_requests = filter tr_success data;
          failed_requests = filter (\<lambda>d. \<not> tr_success d) data;
          success_rate = (if total_requests > 0
                          then real (length successful_requests) / real total_requests * 100
                          else 0);
          response_times = map tr_response_time_ms successful_requests
      in
      if response_times = [] then Inr (NoticeOnly ''No successful requests to analyze'')
      else
        bind_result (calculate_statistics response_times) (\<lambda>stats.
        bind_result (analyze_patterns successful_requests) (\<lambda>pats.
          case (stats, detect_outliers response_times ''zscore'' 2,
                detect_outliers response_times ''iqr'' 2) of
            (Some st, Some outliers_zscore, Some outliers_iqr) \<Rightarrow>
              Inr (Report
                \<lparr>rs_total_requests = total_requests,
                 rs_successful_requests = length successful_requests,
                 rs_failed_requests = length failed_requests,
                 rs_success_rate = success_rate,
                 rs_statistics = st,
                 rs_performance_rating = categorize_performance (cs_cv st) (cs_mean st),
                 rs_zscore_count = length outliers_zscore,
                 rs_iqr_count = length outliers_iqr,
                 rs_errors = count_row_errors [] failed_requests,
                 rs_patterns = pats\<rparr>)
          | (None, _, _) \<Rightarrow> Inl KeyError
          | _ \<Rightarrow> Inl TypeError)))"

section \<open>Example environments\<close>

text \<open>
  A server that answers with an empty JSON object, a transport that times out (the
  text of a timeout exception is empty), a server whose body does not parse, and a
  clock that advances by one unit per reading.
\<close>

definition silent_server :: "string \<Rightarrow> transport" where
  "silent_server idval = Replied 200 \<lparr>p_success = None, p_result = None, p_error = None\<rparr>"

definition timeout_server :: "string \<Rightarrow> transport" where
  "timeout_server idval = PostRaised []"

definition garbled_server :: "string \<Rightarrow> transport" where
  "garbled_server idval = BodyRaised ''Expecting value''"

definition steady_clock :: "nat \<Rightarrow> real" where
  "steady_clock k = real k"

text \<open>A wall clock that is set back by one unit after its first reading.\<close>

definition adjusted_clock :: "nat \<Rightarrow> real" where
  "adjusted_clock k = (if k = 0 then 10 else 9 + real k / 10)"

text \<open>An environment in which every request gets the empty reply.\<close>

definition quiet_env :: env where
  "quiet_env = \<lparr>session = silent_server, clock = steady_clock,
                times = (\<lambda>k. steady_clock), rand = (\<lambda>k. 1000 + k)\<rparr>"

text \<open>
  The default (linear) method of \<^verbatim>\<open>np.percentile\<close>, which sorts its input, and a
  row of timing data for a request that failed.
\<close>

definition linear_percentile :: "real list \<Rightarrow> real \<Rightarrow> real" where
  "linear_percentile xs p = (case percentile (sort xs) p of Inr v \<Rightarrow> v | Inl err \<Rightarrow> 0)"

definition failed_row :: timing_row where
  "failed_row = \<lparr>tr_request_id = 0, tr_response_time_ms = 12, tr_success = False,
                  tr_error = ''timeout''\<rparr>"

section \<open>The trend of the specification\<close>

text \<open>
  The slope as the specification words it: the ordinary least-squares slope of the
  values against their positions \<open>0, ..., n - 1\<close>, by the closed form of the normal
  equations. It is compared below with the sums \<^verbatim>\<open>analyze_trend\<close> computes.
\<close>

definition ols_slope_spec :: "real list \<Rightarrow> real" where
  "ols_slope_spec ys =
     (let n = length ys in
      (real n * (\<Sum>i<n. real i * ys ! i) - (\<Sum>i<n. real i) * (\<Sum>i<n. ys ! i))
        / (real n * (\<Sum>i<n. (real i)\<^sup>2) - (\<Sum>i<n. real i)\<^sup>2))"

text \<open>The synthetic data set \<open>[100, 110, ..., 100 + 10 * (n - 1)]\<close>.\<close>

definition synthetic_ramp :: "nat \<Rightarrow> real list" where
  "synthetic_ramp n = map (\<lambda>i. 100 + 10 * real i) [0..<n]"

text \<open>
  The piecewise linear function through the points \<open>(k, data ! k)\<close>, in the form the
  code evaluates it; an auxiliary notion of the proofs.
\<close>

definition interpolate :: "real list \<Rightarrow> real \<Rightarrow> real" where
  "interpolate data t =
     (if Suc (nat \<lfloor>t\<rfloor>) \<ge> length data then last data
      else data ! nat \<lfloor>t\<rfloor> * (1 - (t - real_of_int \<lfloor>t\<rfloor>))
           + data ! Suc (nat \<lfloor>t\<rfloor>) * (t - real_of_int \<lfloor>t\<rfloor>))"

text \<open>
  The response times \<^verbatim>\<open>analyze_results\<close> aggregates (those of the successful
  requests), and a successful result with a given response time.
\<close>

definition successful_times :: "RequestResult list \<Rightarrow> real list" where
  "successful_times results = map response_time (filter success results)"

definition timed_success :: "int \<Rightarrow> real \<Rightarrow> RequestResult" where
  "timed_success rid t =
     \<lparr>request_id = rid, start_time = 0, end_time = t / 1000, response_time = t,
      status_code = 200, success = True, result_value = True, error = None,
      queue_time = 0, processing_time = 0\<rparr>"

text \<open>
  A run keeps its delays positive: if the delays slept so far are positive, so are those of
  the result, when there is one.
\<close>

definition delays_positive :: "real list \<Rightarrow> py_error + RequestResult list \<times> real list \<Rightarrow> bool" where
  "delays_positive sleeps y =
     (list_all (\<lambda>d. 0 < d) sleeps \<longrightarrow>
        (case y of Inl err \<Rightarrow> True | Inr out \<Rightarrow> list_all (\<lambda>d. 0 < d) (snd out)))"

section \<open>Verified properties\<close>

subsection \<open>The request issuer\<close>

lemma send_request_failed:
  "transport_failed (srv idval) \<Longrightarrow>
     send_request srv now rid idval =
       failure_result rid (now 0) (now (clock_reads (srv idval) - 1)) (failure_text (srv idval))"
  by (cases "srv idval")
     (simp_all add: send_request_def transport_failed_def clock_reads_def failure_text_def)

text \<open>
  C4, as stated, fails in two places. The readings of \<^verbatim>\<open>time.time()\<close> are wall-clock
  readings: when the clock is set back between the two readings of a call, the result
  has an \<^verbatim>\<open>end_time\<close> before its \<^verbatim>\<open>start_time\<close>. And \<^verbatim>\<open>error\<close> is \<^verbatim>\<open>str(e)\<close>,
  which for a timeout is the empty string, not a description.
\<close>

theorem send_request_clock_counterexample:
  "\<not> start_time (send_request timeout_server adjusted_clock 1 ''probe'')
       \<le> end_time (send_request timeout_server adjusted_clock 1 ''probe'')
   \<and> error (send_request timeout_server adjusted_clock 1 ''probe'') = Some []"
  by (simp add: send_request_def timeout_server_def failure_result_def adjusted_clock_def
        Let_def)

text \<open>
  C4 (amended): \<^verbatim>\<open>send_request\<close> never propagates an exception raised in its
  \<^verbatim>\<open>try\<close> block: for every transport failure (the post fails or times out, or the
  body cannot be read) it returns a result with \<^verbatim>\<open>success = False\<close>,
  \<^verbatim>\<open>status_code = 0\<close>, \<^verbatim>\<open>result_value = False\<close> and \<^verbatim>\<open>error = str(e)\<close>, the text of
  the exception (empty for an exception without a message, such as a timeout);
  \<^verbatim>\<open>start_time\<close> is the reading of the clock before the post and \<^verbatim>\<open>end_time\<close> the
  reading in the handler, so that \<^verbatim>\<open>end_time >= start_time\<close> holds exactly when the
  clock has not been set back between these two readings.
\<close>

theorem send_request_failure_result:
  assumes "transport_failed (srv idval)"
  shows "success (send_request srv now rid idval) = False
       \<and> status_code (send_request srv now rid idval) = 0
       \<and> result_value (send_request srv now rid idval) = False
       \<and> error (send_request srv now rid idval) = Some (failure_text (srv idval))
       \<and> start_time (send_request srv now rid idval) = now 0
       \<and> end_time (send_request srv now rid idval) = now (clock_reads (srv idval) - 1)
       \<and> (start_time (send_request srv now rid idval) \<le> end_time (send_request srv now rid idval))
           = (now 0 \<le> now (clock_reads (srv idval) - 1))"
  using assms by (simp add: send_request_failed failure_result_def)

theorem send_request_failure_result_witness:
  "transport_failed (garbled_server ''probe'')
   \<and> success (send_request garbled_server steady_clock 7 ''probe'') = False
   \<and> status_code (send_request garbled_server steady_clock 7 ''probe'') = 0
   \<and> result_value (send_request garbled_server steady_clock 7 ''probe'') = False
   \<and> error (send_request garbled_server steady_clock 7 ''probe'') = Some ''Expecting value''
   \<and> start_time (send_request garbled_server steady_clock 7 ''probe'') = 0
   \<and> end_time (send_request garbled_server steady_clock 7 ''probe'') = 2"
proof -
  have f: "transport_failed (garbled_server ''probe'')"
    by (simp add: transport_failed_def garbled_server_def)
  show ?thesis
    using send_request_failure_result [of garbled_server "''probe''" steady_clock 7] f
    by (simp add: failure_text_def garbled_server_def clock_reads_def steady_clock_def)
qed

text \<open>
  C1, as stated, fails: a server that replies with a body lacking both \<^verbatim>\<open>success\<close>
  and \<^verbatim>\<open>error\<close> yields a result whose \<^verbatim>\<open>success\<close> is false and whose \<^verbatim>\<open>error\<close>
  is \<^verbatim>\<open>None\<close>.
\<close>

theorem send_request_error_iff_counterexample:
  "\<not> ((error (send_request silent_server steady_clock 1 ''probe'') \<noteq> None)
        = (\<not> success (send_request silent_server steady_clock 1 ''probe'')))"
  by (simp add: send_request_def silent_server_def get_default_def Let_def)

text \<open>
  C1 (amended): when the transport fails, the result has \<^verbatim>\<open>error\<close> set and
  \<^verbatim>\<open>success\<close> false; when the server replies, \<^verbatim>\<open>success\<close> is the body's entry
  \<^verbatim>\<open>success\<close> (false when absent) and \<^verbatim>\<open>error\<close> is the body's entry \<^verbatim>\<open>error\<close>
  (\<^verbatim>\<open>None\<close> when absent), each copied independently of the other.
\<close>

theorem send_request_error_and_success:
  "(transport_failed (srv idval) \<longrightarrow>
      error (send_request srv now rid idval) \<noteq> None
      \<and> \<not> success (send_request srv now rid idval))
   \<and> (\<forall>status body. srv idval = Replied status body \<longrightarrow>
      success (send_request srv now rid idval) = get_default (p_success body) False
      \<and> error (send_request srv now rid idval) = p_error body)"
  by (cases "srv idval")
     (simp_all add: send_request_def transport_failed_def failure_result_def Let_def)

theorem send_request_error_and_success_witness:
  "transport_failed (timeout_server ''probe'')
   \<and> error (send_request timeout_server steady_clock 1 ''probe'') = Some []
   \<and> \<not> success (send_request timeout_server steady_clock 1 ''probe'')
   \<and> silent_server ''probe'' = Replied 200 \<lparr>p_success = None, p_result = None, p_error = None\<rparr>
   \<and> success (send_request silent_server steady_clock 1 ''probe'') = False
   \<and> error (send_request silent_server steady_clock 1 ''probe'') = None"
proof -
  have f: "transport_failed (timeout_server ''probe'')"
    by (simp add: transport_failed_def timeout_server_def)
  have r: "silent_server ''probe'' = Replied 200 \<lparr>p_success = None, p_result = None, p_error = None\<rparr>"
    by (simp add: silent_server_def)
  have e: "error (send_request timeout_server steady_clock 1 ''probe'') = Some []"
    by (simp add: send_request_def timeout_server_def failure_result_def Let_def)
  show ?thesis
    using send_request_error_and_success [of timeout_server "''probe''" steady_clock 1]
      send_request_error_and_success [of silent_server "''probe''" steady_clock 1] f r e
    by (simp add: get_default_def)
qed

subsection \<open>The load scheduler: delays\<close>

lemma ramp_delay_positive: "0 < ramp_delay current_rps"
  by (simp add: ramp_delay_def)

lemma ramp_loop_delays:
  assumes "ramp_loop e start_rps end_rps duration start tick rid results sleeps = Some y"
  shows "delays_positive sleeps y"
  using assms
proof (rule ramp_loop.raw_induct
    [rotated, where P = "\<lambda>e start_rps end_rps duration start tick rid results sleeps y.
                  delays_positive sleeps y"])
  fix loop :: "env \<Rightarrow> real \<Rightarrow> real \<Rightarrow> real \<Rightarrow> real \<Rightarrow> nat \<Rightarrow> nat \<Rightarrow> RequestResult list
                 \<Rightarrow> real list \<Rightarrow> (py_error + RequestResult list \<times> real list) option"
    and e :: env and start_rps end_rps duration start :: real and tick rid :: nat
    and results :: "RequestResult list" and sleeps :: "real list"
    and y :: "py_error + RequestResult list \<times> real list"
  assume IH: "\<And>e start_rps end_rps duration start tick rid results sleeps y.
      loop e start_rps end_rps duration start tick rid results sleeps = Some y
        \<Longrightarrow> delays_positive sleeps y"
  assume body: "(if clock e tick - start < duration
      then let elapsed = clock e (tick + 1) - start
           in if duration = 0 then Some (Inl ZeroDivisionError)
              else let progress = elapsed / duration;
                       current_rps = start_rps + (end_rps - start_rps) * progress;
                       delay = ramp_delay current_rps;
                       idval = ramp_idval rid (rand e rid);
                       result = send_request (session e) (\<lambda>k. clock e (tick + 2 + k))
                                  (int rid) idval;
                       tick1 = tick + 2 + clock_reads (session e idval)
                   in loop e start_rps end_rps duration start tick1
                       (rid + 1) (results @ [result]) (sleeps @ [delay])
      else Some (Inr (results, sleeps))) = Some y"
  show "delays_positive sleeps y"
  proof (cases "clock e tick - start < duration")
    case True
    show ?thesis
    proof (cases "duration = 0")
      case zero: True
      with True body show ?thesis by (auto simp: delays_positive_def)
    next
      case False
      let ?delay = "ramp_delay (start_rps + (end_rps - start_rps)
                                  * ((clock e (tick + 1) - start) / duration))"
      from True False body obtain tick' results' where
        "loop e start_rps end_rps duration start tick' (rid + 1) results' (sleeps @ [?delay])
           = Some y"
        by (simp add: Let_def)
      from IH [OF this] show ?thesis
        by (simp add: delays_positive_def ramp_delay_positive)
    qed
  next
    case False
    with body show ?thesis by (auto simp: delays_positive_def)
  qed
qed

lemma run_ramp_test_delays_positive:
  assumes "run_ramp_test e start_rps end_rps duration = Some (Inr out)"
  shows "list_all (\<lambda>d. 0 < d) (snd out)"
  using ramp_loop_delays [of e start_rps end_rps duration "clock e 0" 1 0 "[]" "[]" "Inr out"] assms
  by (simp add: run_ramp_test_def delays_positive_def)

text \<open>
  C2: the ramp loop neutralises a non-positive rate (every delay it sleeps is positive,
  lemma \<open>run_ramp_test_delays_positive\<close>); the sustained strategy does not:
  \<^verbatim>\<open>delay = 1.0 / rps\<close> is computed without a guard, so \<^verbatim>\<open>rps = 0\<close> raises
  \<^verbatim>\<open>ZeroDivisionError\<close> out of \<^verbatim>\<open>run_sustained_test\<close> before any request is
  sent, and a negative rate gives a negative delay.
\<close>

theorem run_sustained_test_zero_rate:
  "run_sustained_test e 0 duration = Some (Inl ZeroDivisionError)
   \<and> sustained_delay (- 2) = Inr (- (1 / 2))"
  by (simp add: run_sustained_test_def sustained_delay_def)

subsection \<open>The performance classifier\<close>

text \<open>
  C8: \<^verbatim>\<open>categorize_performance\<close> is a function of \<open>cv\<close> and the mean alone; the
  consistency tier is Excellent iff \<open>cv < 0.1\<close>, Good iff \<open>0.1 \<le> cv < 0.25\<close>, Fair
  iff \<open>0.25 \<le> cv < 0.5\<close> and Poor otherwise; the speed tier is Fast iff the mean is
  below 500, Moderate iff it is in \<open>[500, 1000)\<close>, Slow iff it is in \<open>[1000, 2000)\<close>
  and Very Slow otherwise; \<open>(0.05, 300)\<close> is rated (Excellent, Fast) and
  \<open>(0.6, 2500)\<close> is rated (Poor, Very Slow).
\<close>

theorem categorize_performance_tiers:
  "(fst (categorize_performance cv avg_time) = ''Excellent'') = (cv < 0.1)
   \<and> (fst (categorize_performance cv avg_time) = ''Good'') = (0.1 \<le> cv \<and> cv < 0.25)
   \<and> (fst (categorize_performance cv avg_time) = ''Fair'') = (0.25 \<le> cv \<and> cv < 0.5)
   \<and> (fst (categorize_performance cv avg_time) = ''Poor'') = (0.5 \<le> cv)
   \<and> (snd (snd (categorize_performance cv avg_time)) = ''Fast'') = (avg_time < 500)
   \<and> (snd (snd (categorize_performance cv avg_time)) = ''Moderate'')
       = (500 \<le> avg_time \<and> avg_time < 1000)
   \<and> (snd (snd (categorize_performance cv avg_time)) = ''Slow'')
       = (1000 \<le> avg_time \<and> avg_time < 2000)
   \<and> (snd (snd (categorize_performance cv avg_time)) = ''Very Slow'') = (2000 \<le> avg_time)
   \<and> categorize_performance 0.05 300
       = (''Excellent'', ''Very low variation, highly predictable'', ''Fast'')
   \<and> categorize_performance 0.6 2500
       = (''Poor'', ''High variation, unpredictable performance'', ''Very Slow'')"
  by (simp add: categorize_performance_def Let_def)

subsection \<open>The burst strategy\<close>

lemma run_burst_test_results:
  "fst (run_burst_test e burst_size burst_interval)
     = concat (map (burst_results e burst_size) [0..<5])"
  by (simp add: run_burst_test_def burst_step_def upt_rec)

lemma length_burst_results: "length (burst_results e burst_size burst) = nat burst_size"
  by (simp add: burst_results_def)

lemma length_concat_bursts:
  "length (concat (map (burst_results e burst_size) [0..<m])) = m * nat burst_size"
  by (induction m) (simp_all add: length_burst_results)

lemma nth_concat_bursts:
  "burst < m \<Longrightarrow> i < nat burst_size \<Longrightarrow>
     concat (map (burst_results e burst_size) [0..<m]) ! (burst * nat burst_size + i)
       = burst_results e burst_size burst ! i"
proof (induction m)
  case 0
  then show ?case by simp
next
  case (Suc m)
  show ?case
  proof (cases "burst < m")
    case True
    then have "burst * nat burst_size + i < m * nat burst_size"
    proof -
      have "burst * nat burst_size + i < burst * nat burst_size + nat burst_size"
        using Suc.prems(2) by simp
      also have "\<dots> = Suc burst * nat burst_size" by simp
      also have "\<dots> \<le> m * nat burst_size"
        using True by (intro mult_le_mono1) simp
      finally show ?thesis .
    qed
    with Suc.IH [OF True Suc.prems(2)] show ?thesis
      by (simp add: nth_append length_concat_bursts)
  next
    case False
    with Suc.prems(1) have "burst = m" by simp
    then show ?thesis
      by (simp add: nth_append length_concat_bursts)
  qed
qed

lemma request_id_burst_results:
  "i < nat burst_size \<Longrightarrow>
     request_id (burst_results e burst_size burst ! i) = int burst * burst_size + int i"
  by (cases "session e (burst_idval burst i (rand e (burst * nat burst_size + i)))")
     (simp_all add: burst_results_def send_request_def failure_result_def Let_def)

text \<open>
  C6: for every \<^verbatim>\<open>burst_size\<close> of at least 1, \<^verbatim>\<open>run_burst_test\<close> returns exactly
  \<open>5 * burst_size\<close> results, and the result at position \<open>burst * burst_size + i\<close>
  (for \<open>burst < 5\<close> and \<open>i < burst_size\<close>) carries the request id
  \<open>burst * burst_size + i\<close>: five contiguous groups, ordered by burst and then
  by the index within the burst.
\<close>

theorem run_burst_test_groups:
  assumes "1 \<le> burst_size"
  shows "int (length (fst (run_burst_test e burst_size burst_interval))) = 5 * burst_size
       \<and> (\<forall>burst i. burst < 5 \<and> int i < burst_size \<longrightarrow>
            request_id (fst (run_burst_test e burst_size burst_interval)
                          ! (burst * nat burst_size + i))
              = int burst * burst_size + int i)"
proof (intro conjI allI impI)
  show "int (length (fst (run_burst_test e burst_size burst_interval))) = 5 * burst_size"
    using assms by (simp add: run_burst_test_results length_concat_bursts)
next
  fix burst i :: nat
  assume a: "burst < 5 \<and> int i < burst_size"
  then have i: "i < nat burst_size" by linarith
  from a have b: "burst < 5" by simp
  show "request_id (fst (run_burst_test e burst_size burst_interval)
                          ! (burst * nat burst_size + i))
              = int burst * burst_size + int i"
    by (simp only: run_burst_test_results nth_concat_bursts [OF b i]
          request_id_burst_results [OF i])
qed

theorem run_burst_test_groups_witness:
  "(1::int) \<le> 20
   \<and> int (length (fst (run_burst_test quiet_env 20 2))) = 100
   \<and> (3::nat) < 5 \<and> int 7 < 20
   \<and> request_id (fst (run_burst_test quiet_env 20 2) ! 67) = 67"
proof -
  have h: "(1::int) \<le> 20" by simp
  note g = run_burst_test_groups [OF h, of quiet_env 2]
  from g have n: "int (length (fst (run_burst_test quiet_env 20 2))) = 100" by simp
  from g have "(3::nat) < 5 \<and> int 7 < 20 \<longrightarrow>
      request_id (fst (run_burst_test quiet_env 20 2) ! (3 * nat 20 + 7)) = int 3 * 20 + int 7"
    by blast
  then have "request_id (fst (run_burst_test quiet_env 20 2) ! 67) = 67" by simp
  with n show ?thesis by simp
qed

subsection \<open>Analysis of a run without a successful request\<close>

text \<open>
  C3, as stated, fails on the empty collection: \<^verbatim>\<open>analyze_results\<close> returns the empty
  dictionary, which carries no marker.
\<close>

theorem analyze_results_empty_counterexample:
  "analyze_results linear_percentile [] = Inr EmptyDict
   \<and> analyze_results linear_percentile [] \<noteq> Inr (ErrorEntry ''No successful requests'')"
  by (simp add: analyze_results_def)

text \<open>
  C3 (amended): for every result collection without a successful request the analysis
  neither raises nor computes statistics. \<^verbatim>\<open>analyze_results\<close> returns the dictionary
  with the single entry \<^verbatim>\<open>error\<close> = \<open>No successful requests\<close> when the collection is
  not empty, and the empty dictionary when it is empty;
  \<^verbatim>\<open>generate_comprehensive_report\<close> prints the one line \<open>No successful requests to analyze\<close> and returns without rendering a report.
\<close>

theorem analysis_without_success:
  "((\<forall>r \<in> set results. \<not> success r) \<longrightarrow>
      analyze_results np_percentile results
        = Inr (if results = [] then EmptyDict else ErrorEntry ''No successful requests''))
   \<and> ((\<forall>d \<in> set data. \<not> tr_success d) \<longrightarrow>
      generate_comprehensive_report data
        = Inr (NoticeOnly ''No successful requests to analyze''))"
proof (intro conjI impI)
  assume "\<forall>r \<in> set results. \<not> success r"
  then have "filter success results = []"
    by (simp add: filter_empty_conv)
  then show "analyze_results np_percentile results
        = Inr (if results = [] then EmptyDict else ErrorEntry ''No successful requests'')"
    by (simp add: analyze_results_def)
next
  assume "\<forall>d \<in> set data. \<not> tr_success d"
  then have "filter tr_success data = []"
    by (simp add: filter_empty_conv)
  then show "generate_comprehensive_report data
        = Inr (NoticeOnly ''No successful requests to analyze'')"
    by (simp add: generate_comprehensive_report_def)
qed

theorem analysis_without_success_witness:
  "\<not> success (failure_result 0 0 1 ''timeout'')
   \<and> analyze_results linear_percentile [failure_result 0 0 1 ''timeout'']
       = Inr (ErrorEntry ''No successful requests'')
   \<and> \<not> tr_success failed_row
   \<and> generate_comprehensive_report [failed_row]
       = Inr (NoticeOnly ''No successful requests to analyze'')"
proof -
  have a: "\<forall>r \<in> set [failure_result 0 0 1 ''timeout'']. \<not> success r"
    by (simp add: failure_result_def)
  have b: "\<forall>d \<in> set [failed_row]. \<not> tr_success d"
    by (simp add: failed_row_def)
  show ?thesis
    using analysis_without_success
      [of "[failure_result 0 0 1 ''timeout'']" linear_percentile "[failed_row]"] a b
    by simp
qed

subsection \<open>Trend detection\<close>

lemma sum_list_upt: "sum_list (map f [0..<n]) = (\<Sum>i<n. (f i :: real))"
  by (simp add: interv_sum_list_conv_sum_set_nat atLeast0LessThan)

lemma zip_positions:
  "zip (map f [0..<length ys]) ys = map (\<lambda>i. (f i, ys ! i)) [0..<length ys]"
  by (rule nth_equalityI) simp_all

lemma sum_list_data: "sum_list ys = (\<Sum>i<length ys. (ys ! i :: real))"
  by (simp add: sum_list_sum_nth atLeast0LessThan)

lemma sum_positions: "(\<Sum>i<n. real i) = real n * (real n - 1) / 2"
  by (induction n) (simp_all add: field_simps)

lemma sum_squared_positions:
  "(\<Sum>i<n. (real i)\<^sup>2) = real n * (real n - 1) * (2 * real n - 1) / 6"
  by (induction n) (simp_all add: field_simps power2_eq_square)

lemma normal_denominator:
  "real n * (\<Sum>i<n. (real i)\<^sup>2) - (\<Sum>i<n. real i)\<^sup>2
     = (real n)\<^sup>2 * ((real n)\<^sup>2 - 1) / 12"
  unfolding sum_positions sum_squared_positions
  by (simp add: field_simps power2_eq_square)

lemma normal_denominator_positive:
  assumes "2 \<le> n"
  shows "0 < real n * (\<Sum>i<n. (real i)\<^sup>2) - (\<Sum>i<n. real i)\<^sup>2"
proof -
  have "1 < real n" using assms by simp
  then have "1 < (real n)\<^sup>2" by (simp add: power2_eq_square less_1_mult)
  moreover have "0 < (real n)\<^sup>2" using assms by simp
  ultimately show ?thesis
    by (simp add: normal_denominator)
qed

lemma analyze_trend_sums:
  "10 \<le> length data \<Longrightarrow>
   analyze_trend data =
     Inr (if ols_slope_spec data > 0.1 then ''increasing''
          else if ols_slope_spec data < - 0.1 then ''decreasing'' else ''stable'')"
proof -
  assume n: "10 \<le> length data"
  then have pos: "0 < real (length data) * (\<Sum>i<length data. (real i)\<^sup>2)
                    - (\<Sum>i<length data. real i)\<^sup>2"
    by (intro normal_denominator_positive) simp
  have sx: "sum_list (map real [0..<length data]) = (\<Sum>i<length data. real i)"
    by (rule sum_list_upt)
  have sxx: "sum_list (map (\<lambda>xi. xi * xi) (map real [0..<length data]))
               = (\<Sum>i<length data. (real i)\<^sup>2)"
    by (simp add: o_def sum_list_upt power2_eq_square)
  have sxy: "sum_list (map (\<lambda>(xi, yi). xi * yi) (zip (map real [0..<length data]) data))
               = (\<Sum>i<length data. real i * data ! i)"
    by (simp add: zip_positions o_def sum_list_upt)
  have sy: "sum_list data = (\<Sum>i<length data. data ! i)"
    by (rule sum_list_data)
  from pos have nz: "real (length data) * (\<Sum>i<length data. (real i)\<^sup>2)
                    - (\<Sum>i<length data. real i) * (\<Sum>i<length data. real i) \<noteq> 0"
    by (simp add: power2_eq_square)
  show ?thesis
    using n nz
    unfolding analyze_trend_def ols_slope_spec_def Let_def sx sxx sxy
    by (simp add: sy [symmetric] power2_eq_square)
qed

lemma synthetic_ramp_nth: "i < n \<Longrightarrow> synthetic_ramp n ! i = 100 + 10 * real i"
  by (simp add: synthetic_ramp_def)

lemma ols_slope_synthetic_ramp:
  assumes "2 \<le> n"
  shows "ols_slope_spec (synthetic_ramp n) = 10"
proof -
  let ?S1 = "\<Sum>i<n. real i" and ?S2 = "\<Sum>i<n. (real i)\<^sup>2"
  have len: "length (synthetic_ramp n) = n"
    by (simp add: synthetic_ramp_def)
  have sy: "(\<Sum>i<n. synthetic_ramp n ! i) = 100 * real n + 10 * ?S1"
    by (simp add: synthetic_ramp_nth sum.distrib sum_distrib_left)
  have sxy: "(\<Sum>i<n. real i * synthetic_ramp n ! i) = 100 * ?S1 + 10 * ?S2"
  proof -
    have "(\<Sum>i<n. real i * synthetic_ramp n ! i)
            = (\<Sum>i<n. 100 * real i + 10 * (real i)\<^sup>2)"
      by (rule sum.cong) (simp_all add: synthetic_ramp_nth algebra_simps power2_eq_square)
    also have "\<dots> = 100 * ?S1 + 10 * ?S2"
      by (simp add: sum.distrib sum_distrib_left)
    finally show ?thesis .
  qed
  have pos: "0 < real n * ?S2 - ?S1\<^sup>2"
    using assms by (rule normal_denominator_positive)
  define d where "d = real n * ?S2 - ?S1\<^sup>2"
  have num: "real n * (100 * ?S1 + 10 * ?S2) - ?S1 * (100 * real n + 10 * ?S1) = 10 * d"
    by (simp add: d_def algebra_simps power2_eq_square)
  have "ols_slope_spec (synthetic_ramp n) = 10 * d / d"
    unfolding ols_slope_spec_def Let_def len sy sxy num by (simp add: d_def)
  also have "\<dots> = 10"
  proof -
    have "d \<noteq> 0" using pos by (simp add: d_def)
    then show ?thesis by simp
  qed
  finally show ?thesis .
qed

subsection \<open>Percentiles\<close>

lemma py_index_last:
  assumes "data \<noteq> []"
  shows "py_index data (- 1) = Inr (last data)"
proof -
  have n: "1 \<le> int (length data)" using assms by (cases data) simp_all
  then have "nat (int (length data) + - 1) = length data - 1" by linarith
  with n assms show ?thesis
    by (simp add: py_index_def last_conv_nth)
qed

lemma py_index_nat: "0 \<le> i \<Longrightarrow> nat i < length data \<Longrightarrow> py_index data i = Inr (data ! nat i)"
  by (simp add: py_index_def)

lemma percentile_interpolate:
  assumes "data \<noteq> []" and "0 \<le> p"
  shows "percentile data p = Inr (interpolate data (real (length data - 1) * p / 100))"
proof -
  define t where "t = real (length data - 1) * p / 100"
  have n: "0 < length data" using assms(1) by simp
  then have "real (length data - 1) = real (length data) - 1"
    by (cases "length data") simp_all
  then have idx: "real_of_int (int (length data) - 1) * p / 100 = t"
    by (simp add: t_def)
  have t0: "0 \<le> t" using assms(2) by (simp add: t_def)
  then have fl: "py_int t = \<lfloor>t\<rfloor>" and f0: "0 \<le> \<lfloor>t\<rfloor>"
    by (simp_all add: py_int_def)
  have unfolded: "percentile data p =
      (if \<lfloor>t\<rfloor> + 1 \<ge> int (length data) then py_index data (- 1)
       else bind_result (py_index data \<lfloor>t\<rfloor>) (\<lambda>lo.
            bind_result (py_index data (\<lfloor>t\<rfloor> + 1)) (\<lambda>hi.
              Inr (lo * (1 - (t - real_of_int \<lfloor>t\<rfloor>)) + hi * (t - real_of_int \<lfloor>t\<rfloor>)))))"
    unfolding percentile_def Let_def idx fl by (rule refl)
  have "percentile data p = Inr (interpolate data t)"
  proof (cases "Suc (nat \<lfloor>t\<rfloor>) \<ge> length data")
    case True
    then have "\<lfloor>t\<rfloor> + 1 \<ge> int (length data)" using f0 by linarith
    with True show ?thesis
      by (simp only: unfolded interpolate_def if_True py_index_last [OF assms(1)])
  next
    case False
    then have up: "\<not> \<lfloor>t\<rfloor> + 1 \<ge> int (length data)" using f0 by linarith
    have lo: "py_index data \<lfloor>t\<rfloor> = Inr (data ! nat \<lfloor>t\<rfloor>)"
      using False f0 by (intro py_index_nat) simp_all
    have hi: "py_index data (\<lfloor>t\<rfloor> + 1) = Inr (data ! Suc (nat \<lfloor>t\<rfloor>))"
    proof -
      have "nat (\<lfloor>t\<rfloor> + 1) = Suc (nat \<lfloor>t\<rfloor>)" using f0 by linarith
      moreover have "py_index data (\<lfloor>t\<rfloor> + 1) = Inr (data ! nat (\<lfloor>t\<rfloor> + 1))"
        using False f0 by (intro py_index_nat) linarith+
      ultimately show ?thesis by simp
    qed
    from False up show ?thesis
      by (simp only: unfolded interpolate_def if_False lo hi bind_result_def sum.case)
  qed
  then show ?thesis by (simp only: t_def)
qed


subsection \<open>The two standard deviations\<close>

lemma py_min_total: "xs \<noteq> [] \<Longrightarrow> \<exists>v. py_min xs = Inr v"
  by (cases xs) (simp_all add: py_min_def)

lemma py_max_total: "xs \<noteq> [] \<Longrightarrow> \<exists>v. py_max xs = Inr v"
  by (cases xs) (simp_all add: py_max_def)

lemma statistics_median_total:
  assumes "xs \<noteq> []"
  shows "\<exists>v. statistics_median xs = Inr v"
proof -
  have n: "length (sort xs) \<noteq> 0" using assms by simp
  show ?thesis
  proof (cases "length (sort xs) mod 2 = 1")
    case True
    with n show ?thesis unfolding statistics_median_def Let_def by (simp only: if_True if_False simp_thms) blast
  next
    case False
    with n show ?thesis unfolding statistics_median_def Let_def by (simp only: if_True if_False simp_thms) blast
  qed
qed

lemma analyze_trend_total: "\<exists>label. analyze_trend data = Inr label"
proof (cases "length data < 10")
  case True
  then show ?thesis by (simp add: analyze_trend_def)
next
  case False
  then have "10 \<le> length data" by simp
  from analyze_trend_sums [OF this] show ?thesis by blast
qed

lemma detect_outliers_benchmark_total:
  "\<exists>report. detect_outliers_benchmark data threshold = Inr report"
  by (simp add: detect_outliers_benchmark_def statistics_mean_def statistics_stdev_def
        bind_result_def Let_def)

lemma variations_nonempty:
  "2 \<le> length ts \<Longrightarrow> map f [1..<length ts] \<noteq> []"
  by auto

lemma analyze_timing_patterns_long:
  assumes "2 \<le> length rs"
  shows "\<exists>tp. analyze_timing_patterns rs = Inr (Some tp)
          \<and> tp_timing_consistency tp =
              (if sum_list (map response_time rs) / real (length rs) > 0
               then 1 - sqrt (squared_deviations (map response_time rs)
                                (sum_list (map response_time rs) / real (length rs))
                              / real (length rs - 1))
                        / (sum_list (map response_time rs) / real (length rs))
               else 0)"
proof -
  define times where "times = map response_time rs"
  define series where "series = sort_key fst (zip (map start_time rs) times)"
  define variations where
    "variations = map (\<lambda>i. \<bar>snd (series ! i) - snd (series ! (i - 1))\<bar>) [1..<length series]"
  have len: "length series = length rs" by (simp add: series_def times_def)
  have ne: "variations \<noteq> []"
    unfolding variations_def using assms len by (intro variations_nonempty) simp
  have tne: "times \<noteq> []" "\<not> length times < 2" "length times = length rs"
    using assms by (auto simp: times_def)
  obtain mx where mx: "py_max variations = Inr mx" using py_max_total [OF ne] by blast
  obtain outl where outl: "detect_outliers_benchmark times 2 = Inr outl"
    using detect_outliers_benchmark_total by blast
  obtain trend where trend: "analyze_trend times = Inr trend"
    using analyze_trend_total by blast
  have unfolded: "analyze_timing_patterns rs =
     bind_result (if variations \<noteq> [] then py_max variations else Inr 0) (\<lambda>max_variation.
        bind_result (if variations \<noteq> [] then statistics_mean variations else Inr 0) (\<lambda>avg_variation.
        bind_result (statistics_mean times) (\<lambda>mean_times.
        bind_result (if mean_times > 0
                     then bind_result (statistics_stdev times) (\<lambda>sd. Inr (1 - sd / mean_times))
                     else Inr 0) (\<lambda>consistency.
        bind_result (detect_outliers_benchmark times 2) (\<lambda>outl.
        bind_result (analyze_trend times) (\<lambda>trend.
          Inr (Some \<lparr>tp_max_variation = max_variation, tp_avg_variation = avg_variation,
                     tp_timing_consistency = consistency, tp_outliers = outl,
                     tp_trending = trend\<rparr>)))))))"
    using assms
    unfolding analyze_timing_patterns_def Let_def variations_def series_def times_def
    by simp
  show ?thesis
    unfolding unfolded
    using ne tne
    by (simp add: mx outl trend statistics_mean_def statistics_stdev_def bind_result_def
          times_def [symmetric])
qed

lemma analyze_timing_patterns_total: "\<exists>tp. analyze_timing_patterns rs = Inr tp"
proof (cases "length rs < 2")
  case True
  then show ?thesis by (simp add: analyze_timing_patterns_def)
next
  case False
  then have "2 \<le> length rs" by simp
  from analyze_timing_patterns_long [OF this] show ?thesis by blast
qed


lemma percentile_total:
  assumes "data \<noteq> []" and "0 \<le> p"
  shows "\<exists>v. percentile data p = Inr v"
  using percentile_interpolate [OF assms] by blast

lemma calculate_statistics_std_dev:
  assumes "xs \<noteq> []"
  shows "\<exists>st. calculate_statistics xs = Inr (Some st)
           \<and> cs_std_dev st
                = sqrt (squared_deviations xs (sum_list xs / real (length xs)) / real (length xs))
           \<and> cs_cv st
                = (if sum_list xs / real (length xs) \<noteq> 0
                   then sqrt (squared_deviations xs (sum_list xs / real (length xs))
                                / real (length xs))
                          / (sum_list xs / real (length xs))
                   else 0)"
proof -
  define variations where
    "variations = map (\<lambda>i. \<bar>xs ! i - xs ! (i - 1)\<bar>) [1..<length xs]"
  have sne: "sort xs \<noteq> []" using assms by (metis length_sort length_0_conv)
  obtain mn where mn: "py_min xs = Inr mn" using py_min_total [OF assms] by blast
  obtain mx where mx: "py_max xs = Inr mx" using py_max_total [OF assms] by blast
  obtain p25 where p25: "percentile (sort xs) 25 = Inr p25"
    using percentile_total [OF sne, of 25] by auto
  obtain p75 where p75: "percentile (sort xs) 75 = Inr p75"
    using percentile_total [OF sne, of 75] by auto
  obtain p95 where p95: "percentile (sort xs) 95 = Inr p95"
    using percentile_total [OF sne, of 95] by auto
  obtain p99 where p99: "percentile (sort xs) 99 = Inr p99"
    using percentile_total [OF sne, of 99] by auto
  obtain mv where mv: "(if variations \<noteq> [] then py_max variations else Inr 0) = Inr mv"
    using py_max_total [of variations] by (cases "variations = []") auto
  show ?thesis
    unfolding calculate_statistics_def Let_def variations_def [symmetric]
    using assms
    by (simp add: mn mx p25 p75 p95 p99 mv bind_result_def)
qed

lemma analyze_results_std_dev:
  assumes "filter success results \<noteq> []"
  shows "\<exists>bs. analyze_results np_percentile results = Inr (Statistics bs)
           \<and> rt_std_dev (bs_response_times bs)
                = (if length (successful_times results) > 1
                   then sqrt (squared_deviations (successful_times results)
                                (sum_list (successful_times results)
                                   / real (length (successful_times results)))
                              / real (length (successful_times results) - 1))
                   else 0)
           \<and> analyze_timing_patterns (filter success results) = Inr (bs_timing_analysis bs)"
proof -
  define ts where "ts = successful_times results"
  have ts: "map response_time (filter success results) = ts"
    by (simp add: ts_def successful_times_def)
  have tne: "ts \<noteq> []" using assms by (simp add: ts_def successful_times_def)
  have rne: "results \<noteq> []" using assms by auto
  obtain mn where mn: "py_min ts = Inr mn" using py_min_total [OF tne] by blast
  obtain mx where mx: "py_max ts = Inr mx" using py_max_total [OF tne] by blast
  obtain med where med: "statistics_median ts = Inr med"
    using statistics_median_total [OF tne] by blast
  obtain tp where tp: "analyze_timing_patterns (filter success results) = Inr tp"
    using analyze_timing_patterns_total by blast
  show ?thesis
    unfolding analyze_results_def Let_def ts ts_def [symmetric]
    using tne rne
    by (simp add: mn mx med tp statistics_mean_def statistics_stdev_def bind_result_def)
qed

lemma squared_deviations_nonneg: "0 \<le> squared_deviations xs m"
  unfolding squared_deviations_def by (induction xs) simp_all

lemma squared_deviations_positive:
  assumes "a \<in> set xs" and "a \<noteq> m"
  shows "0 < squared_deviations xs m"
  using assms
proof (induction xs)
  case Nil
  then show ?case by simp
next
  case (Cons x xs)
  have tail: "0 \<le> squared_deviations xs m" by (rule squared_deviations_nonneg)
  have unfold: "squared_deviations (x # xs) m = (x - m)\<^sup>2 + squared_deviations xs m"
    by (simp add: squared_deviations_def)
  show ?case
  proof (cases "a = x")
    case True
    then have "0 < (x - m)\<^sup>2" using Cons.prems(2) by simp
    with tail show ?thesis unfolding unfold by linarith
  next
    case False
    then have "0 < squared_deviations xs m" using Cons by simp
    moreover have "0 \<le> (x - m)\<^sup>2" by simp
    ultimately show ?thesis unfolding unfold by linarith
  qed
qed

lemma population_below_sample:
  assumes "a \<in> set xs" and "b \<in> set xs" and "a \<noteq> b"
  shows "sqrt (squared_deviations xs m / real (length xs))
           < sqrt (squared_deviations xs m / real (length xs - 1))"
proof -
  have "a \<noteq> m \<or> b \<noteq> m" using assms(3) by auto
  then have pos: "0 < squared_deviations xs m"
    using assms(1,2) squared_deviations_positive by blast
  have two: "2 \<le> length xs"
  proof (rule ccontr)
    assume "\<not> 2 \<le> length xs"
    then have "length xs \<le> 1" by simp
    then have "xs = [] \<or> (\<exists>x. xs = [x])"
      by (cases xs) auto
    with assms show False by auto
  qed
  then have "0 < real (length xs - 1)" and "real (length xs - 1) < real (length xs)"
    by simp_all
  then have "squared_deviations xs m / real (length xs)
               < squared_deviations xs m / real (length xs - 1)"
    using pos by (intro divide_strict_left_mono mult_pos_pos) auto
  then show ?thesis by simp
qed


lemma two_distinct_members:
  assumes "a \<in> set xs" and "b \<in> set xs" and "a \<noteq> b"
  shows "2 \<le> length xs"
proof (rule ccontr)
  assume "\<not> 2 \<le> length xs"
  then have "length xs \<le> 1" by simp
  then have "xs = [] \<or> (\<exists>x. xs = [x])"
    by (cases xs) auto
  with assms show False by auto
qed

text \<open>
  C10: \<^verbatim>\<open>calculate_statistics\<close> reports the population standard deviation (squared
  deviations divided by \<open>n\<close>, hence 0 for a single value), \<^verbatim>\<open>analyze_results\<close> the
  sample standard deviation (divided by \<open>n - 1\<close>, and 0 for a single value). On the
  same response times, as soon as two of them differ, the first is strictly smaller
  than the second; and when the mean is positive the coefficient of variation of
  \<^verbatim>\<open>calculate_statistics\<close> is strictly smaller than the ratio of standard deviation
  and mean that \<^verbatim>\<open>analyze_results\<close> reports through \<^verbatim>\<open>timing_consistency\<close>.
\<close>

theorem std_dev_definitions_differ:
  "(\<exists>st. calculate_statistics [x] = Inr (Some st) \<and> cs_std_dev st = 0)
   \<and> (success r \<longrightarrow>
        (\<exists>bs. analyze_results np_percentile [r] = Inr (Statistics bs)
           \<and> rt_std_dev (bs_response_times bs) = 0))
   \<and> (a \<in> set (successful_times results) \<and> b \<in> set (successful_times results) \<and> a \<noteq> b \<longrightarrow>
        (\<exists>st bs. calculate_statistics (successful_times results) = Inr (Some st)
           \<and> analyze_results np_percentile results = Inr (Statistics bs)
           \<and> cs_std_dev st
               = sqrt (squared_deviations (successful_times results)
                         (sum_list (successful_times results)
                            / real (length (successful_times results)))
                       / real (length (successful_times results)))
           \<and> rt_std_dev (bs_response_times bs)
               = sqrt (squared_deviations (successful_times results)
                         (sum_list (successful_times results)
                            / real (length (successful_times results)))
                       / real (length (successful_times results) - 1))
           \<and> cs_std_dev st < rt_std_dev (bs_response_times bs)
           \<and> (0 < sum_list (successful_times results)
                     / real (length (successful_times results)) \<longrightarrow>
                (\<exists>tp. bs_timing_analysis bs = Some tp
                   \<and> cs_cv st < 1 - tp_timing_consistency tp))))"
proof (intro conjI impI)
  obtain st where "calculate_statistics [x] = Inr (Some st)"
    and "cs_std_dev st = sqrt (squared_deviations [x] (sum_list [x] / real (length [x]))
                                 / real (length [x]))"
    using calculate_statistics_std_dev [of "[x]"] by auto
  then show "\<exists>st. calculate_statistics [x] = Inr (Some st) \<and> cs_std_dev st = 0"
    by (auto simp: squared_deviations_def)
next
  assume "success r"
  then have "filter success [r] \<noteq> []" by simp
  from analyze_results_std_dev [OF this, of np_percentile]
  show "\<exists>bs. analyze_results np_percentile [r] = Inr (Statistics bs)
           \<and> rt_std_dev (bs_response_times bs) = 0"
    using \<open>success r\<close> by (auto simp: successful_times_def)
next
  define ts where "ts = successful_times results"
  define m where "m = sum_list ts / real (length ts)"
  assume "a \<in> set (successful_times results) \<and> b \<in> set (successful_times results) \<and> a \<noteq> b"
  then have ab: "a \<in> set ts" "b \<in> set ts" "a \<noteq> b" by (simp_all add: ts_def)
  have two: "2 \<le> length ts" using ab by (rule two_distinct_members)
  then have tne: "ts \<noteq> []" by auto
  have len: "length (filter success results) = length ts"
    and times: "map response_time (filter success results) = ts"
    by (simp_all add: ts_def successful_times_def)
  from tne times have fne: "filter success results \<noteq> []" by auto
  obtain st where st: "calculate_statistics ts = Inr (Some st)"
    and sd: "cs_std_dev st = sqrt (squared_deviations ts m / real (length ts))"
    and cv: "cs_cv st = (if m \<noteq> 0 then sqrt (squared_deviations ts m / real (length ts)) / m
                         else 0)"
    using calculate_statistics_std_dev [OF tne] unfolding m_def by blast
  obtain bs where bs: "analyze_results np_percentile results = Inr (Statistics bs)"
    and sd': "rt_std_dev (bs_response_times bs)
                = (if length ts > 1 then sqrt (squared_deviations ts m / real (length ts - 1))
                   else 0)"
    and timing: "analyze_timing_patterns (filter success results) = Inr (bs_timing_analysis bs)"
    using analyze_results_std_dev [OF fne, of np_percentile] unfolding ts_def [symmetric] m_def
    by blast
  from two sd' have sample: "rt_std_dev (bs_response_times bs)
                = sqrt (squared_deviations ts m / real (length ts - 1))" by simp
  have less: "sqrt (squared_deviations ts m / real (length ts))
                < sqrt (squared_deviations ts m / real (length ts - 1))"
    using ab by (rule population_below_sample)
  have ratio: "\<exists>tp. bs_timing_analysis bs = Some tp \<and> cs_cv st < 1 - tp_timing_consistency tp"
    if mpos: "0 < m"
  proof -
    have "2 \<le> length (filter success results)" using two len by simp
    from analyze_timing_patterns_long [OF this]
    obtain tp where tp: "analyze_timing_patterns (filter success results) = Inr (Some tp)"
      and c: "tp_timing_consistency tp
                = (if m > 0 then 1 - sqrt (squared_deviations ts m / real (length ts - 1)) / m
                   else 0)"
      unfolding times len m_def by blast
    from tp timing have some: "bs_timing_analysis bs = Some tp" by simp
    have "sqrt (squared_deviations ts m / real (length ts)) / m
            < sqrt (squared_deviations ts m / real (length ts - 1)) / m"
      using less mpos by (rule divide_strict_right_mono)
    with mpos cv c some show ?thesis by simp
  qed
  show "\<exists>st bs. calculate_statistics (successful_times results) = Inr (Some st)
           \<and> analyze_results np_percentile results = Inr (Statistics bs)
           \<and> cs_std_dev st
               = sqrt (squared_deviations (successful_times results)
                         (sum_list (successful_times results)
                            / real (length (successful_times results)))
                       / real (length (successful_times results)))
           \<and> rt_std_dev (bs_response_times bs)
               = sqrt (squared_deviations (successful_times results)
                         (sum_list (successful_times results)
                            / real (length (successful_times results)))
                       / real (length (successful_times results) - 1))
           \<and> cs_std_dev st < rt_std_dev (bs_response_times bs)
           \<and> (0 < sum_list (successful_times results)
                     / real (length (successful_times results)) \<longrightarrow>
                (\<exists>tp. bs_timing_analysis bs = Some tp
                   \<and> cs_cv st < 1 - tp_timing_consistency tp))"
    unfolding ts_def [symmetric] m_def [symmetric]
    using st bs sd sample less ratio by auto
qed

lemma successful_times_example:
  "successful_times [timed_success 0 1, timed_success 1 3] = [1, 3]"
  by (simp add: successful_times_def timed_success_def)

theorem std_dev_definitions_differ_witness:
  "success (timed_success 0 1)
   \<and> (\<exists>bs. analyze_results linear_percentile [timed_success 0 1] = Inr (Statistics bs)
        \<and> rt_std_dev (bs_response_times bs) = 0)
   \<and> (1::real) \<noteq> 3
   \<and> successful_times [timed_success 0 1, timed_success 1 3] = [1, 3]
   \<and> (\<exists>st bs. calculate_statistics [1, 3] = Inr (Some st)
        \<and> analyze_results linear_percentile [timed_success 0 1, timed_success 1 3]
            = Inr (Statistics bs)
        \<and> cs_std_dev st = 1
        \<and> rt_std_dev (bs_response_times bs) = sqrt 2
        \<and> (\<exists>tp. bs_timing_analysis bs = Some tp \<and> cs_cv st < 1 - tp_timing_consistency tp))"
proof -
  have s: "success (timed_success 0 1)" by (simp add: timed_success_def)
  note t = std_dev_definitions_differ
    [of 1 "timed_success 0 1" linear_percentile 1 "[timed_success 0 1, timed_success 1 3]" 3]
  have sq: "squared_deviations [1, 3] 2 = 2" by (simp add: squared_deviations_def)
  from t s show ?thesis
    unfolding successful_times_example by (simp add: sq) blast
qed

end
